theory Spec2Isabelle
  imports Main
begin

section \<open>Values of the host language\<close>

text \<open>
  A store is generic in its state type \<open>TState\<close>. The store code inspects a state value
  in two ways only: by truthiness (\<open>if (newState)\<close>, \<open>persistedState ? .. : ..\<close>) and by
  the nullish test of \<open>??\<close>; the reactive primitive compares two values when one replaces
  the other. A number is an integer-valued double (a counter, as in the README's
  \<open>CounterStore extends Store<number>\<close>): \<open>Num n\<close> for an integer \<open>n\<close> that a double holds
  exactly. An object is held by reference: \<open>Obj a\<close> is the
  object at address \<open>a\<close> of the heap of the process, where its fields are.
\<close>

datatype jsval =
    Undefined
  | Null
  | Bool bool
  | Num int
  | Str string
  | Obj nat

fun truthy :: "jsval \<Rightarrow> bool" where
  "truthy Undefined = False"
| "truthy Null = False"
| "truthy (Bool b) = b"
| "truthy (Num n) = (n \<noteq> 0)"
| "truthy (Str s) = (s \<noteq> [])"
| "truthy (Obj a) = True"

fun nullish :: "jsval \<Rightarrow> bool" where
  "nullish Undefined = True"
| "nullish Null = True"
| "nullish v = False"

text \<open>The operator \<open>a ?? b\<close>.\<close>

definition nullish_coalesce :: "jsval \<Rightarrow> jsval \<Rightarrow> jsval" where
  "nullish_coalesce a b = (if nullish a then b else a)"

text \<open>A result of type \<open>T | undefined\<close>, read as a plain value.\<close>

fun or_undefined :: "jsval option \<Rightarrow> jsval" where
  "or_undefined None = Undefined"
| "or_undefined (Some v) = v"

text \<open>An optional flag of the configuration, \<open>flag ?? false\<close>.\<close>

fun flag_or_false :: "bool option \<Rightarrow> bool" where
  "flag_or_false None = False"
| "flag_or_false (Some b) = b"

text \<open>
  The default equality of a signal,
  \<open>(a === null || typeof a !== 'object') && Object.is(a, b)\<close>: two objects are never
  equal, not even an object and itself.
\<close>

fun signal_equal :: "jsval \<Rightarrow> jsval \<Rightarrow> bool" where
  "signal_equal (Obj a) b = False"
| "signal_equal a b = (a = b)"

text \<open>
  The sum of two integer-valued doubles is the integer sum rounded to a double: exact up
  to \<open>2^53\<close> in magnitude, and beyond that rounded to 53 significant bits, a tie going to
  the even significand.
\<close>

function bit_length :: "int \<Rightarrow> nat" where
  "bit_length n = (if n \<le> 0 then 0 else Suc (bit_length (n div 2)))"
  by pat_completeness auto
termination
  by (relation "measure nat") auto

declare bit_length.simps [simp del]

definition round_to_double :: "int \<Rightarrow> int" where
  "round_to_double x =
     (if \<bar>x\<bar> \<le> 9007199254740992 then x
      else let m = \<bar>x\<bar>;
               u = 2 ^ (bit_length m - 53);
               q = m div u;
               r = m mod u;
               q' = (if u < 2 * r then q + 1
                     else if 2 * r = u \<and> odd q then q + 1
                     else q)
           in sgn x * (q' * u))"

section \<open>Configuration\<close>

text \<open>
  \<open>StoreConfig<TState>\<close> as the constructor reads it: every field but \<open>initialState\<close>
  is optional. \<open>RequiredConfig\<close> is the \<open>Required<StoreConfig<TState>>\<close> that the
  constructor builds from it.
\<close>

record StoreConfig =
  name_opt :: "string option"
  initialState_in :: jsval
  enableEvents_opt :: "bool option"
  enableEffectsAndQueries_opt :: "bool option"
  enableLogging_opt :: "bool option"
  enableStateHistory_opt :: "bool option"
  enableLocalStorageSync_opt :: "bool option"

record RequiredConfig =
  name :: string
  initialState :: jsval
  enableEvents :: bool
  enableEffectsAndQueries :: bool
  enableLogging :: bool
  enableStateHistory :: bool
  enableLocalStorageSync :: bool

section \<open>Command history\<close>

text \<open>
  Modelled from the spec: the class \<open>StoreHistory\<close> and the type \<open>HistoryItem\<close> of
  \<open>store-history.ts\<close>, which \<open>store.ts\<close> imports. An entry is
  \<open>{ state, commandLabel }\<close>; the history is two stacks, both empty at creation. The top
  of a stack is the last element of its list, so that \<open>entries\<close> reads the undo-stack
  oldest first.
\<close>

record HistoryItem =
  entry_state :: jsval
  commandLabel :: string

record StoreHistory =
  undoStack :: "HistoryItem list"
  redoStack :: "HistoryItem list"

definition StoreHistory_new :: StoreHistory where
  "StoreHistory_new = \<lparr>undoStack = [], redoStack = []\<rparr>"

text \<open>
  Modelled from the spec: \<open>add(stateBeforeChange, commandLabel)\<close> pushes the entry onto
  the undo-stack and clears the redo-stack.
\<close>

definition StoreHistory_add :: "jsval \<Rightarrow> string \<Rightarrow> StoreHistory \<Rightarrow> StoreHistory" where
  "StoreHistory_add stateBeforeChange label h =
     \<lparr>undoStack = undoStack h @ [\<lparr>entry_state = stateBeforeChange, commandLabel = label\<rparr>],
      redoStack = []\<rparr>"

text \<open>
  Modelled from the spec: \<open>undo(currentState)\<close> returns absent on an empty undo-stack;
  else it pops the top entry \<open>e\<close>, pushes \<open>{state: currentState, commandLabel: e.commandLabel}\<close>
  onto the redo-stack and returns \<open>e.state\<close>.
\<close>

definition StoreHistory_undo :: "jsval \<Rightarrow> StoreHistory \<Rightarrow> jsval option \<times> StoreHistory" where
  "StoreHistory_undo currentState h =
     (if undoStack h = [] then (None, h)
      else let e = last (undoStack h) in
        (Some (entry_state e),
         \<lparr>undoStack = butlast (undoStack h),
          redoStack = redoStack h @ [\<lparr>entry_state = currentState, commandLabel = commandLabel e\<rparr>]\<rparr>))"

text \<open>
  Modelled from the spec: \<open>redo(currentState)\<close> returns absent on an empty redo-stack;
  else it pops the top entry \<open>e\<close> of the redo-stack, pushes
  \<open>{state: currentState, commandLabel: e.commandLabel}\<close> onto the undo-stack and returns
  \<open>e.state\<close>.
\<close>

definition StoreHistory_redo :: "jsval \<Rightarrow> StoreHistory \<Rightarrow> jsval option \<times> StoreHistory" where
  "StoreHistory_redo currentState h =
     (if redoStack h = [] then (None, h)
      else let e = last (redoStack h) in
        (Some (entry_state e),
         \<lparr>undoStack = undoStack h @ [\<lparr>entry_state = currentState, commandLabel = commandLabel e\<rparr>],
          redoStack = butlast (redoStack h)\<rparr>))"

text \<open>Modelled from the spec: \<open>entries\<close>, the undo-stack oldest first.\<close>

definition StoreHistory_entries :: "StoreHistory \<Rightarrow> HistoryItem list" where
  "StoreHistory_entries h = undoStack h"

section \<open>Event mediator\<close>

text \<open>
  Modelled from the spec: the class \<open>Mediator\<close> of \<open>mediator.ts\<close> and \<open>StoreEvent\<close> of
  \<open>store-event.ts\<close>. An event is identified by its name. A handler is an
  application-supplied callback; it is represented by an identifier, and running it is
  recorded in the trace \<open>handled\<close> of the process (see below) as
  (handler, event name, payload). The registrations are a mapping from the event to the
  list of its registrations in registration order; the keys keep their insertion order.
  The ledger keeps, for each event, the payloads published so far. A mediator is an
  object: the process holds the instances by reference (see below), and \<open>register\<close> and
  \<open>publish\<close> change the instance they are called on.
\<close>

datatype StoreEvent = StoreEvent (event_name: string)

record Registration =
  source :: string
  handler :: nat

record Mediator =
  registrations :: "(string \<times> Registration list) list"
  ledger :: "string \<Rightarrow> jsval list"

definition Mediator_new :: Mediator where
  "Mediator_new = \<lparr>registrations = [], ledger = (\<lambda>_. [])\<rparr>"

definition registrations_of :: "Mediator \<Rightarrow> string \<Rightarrow> Registration list" where
  "registrations_of m ev = (case map_of (registrations m) ev of None \<Rightarrow> [] | Some rs \<Rightarrow> rs)"

text \<open>
  Modelled from the spec: \<open>register(event, source, handler)\<close> appends
  \<open>{source, handler}\<close> to the registration list of the event.
\<close>

fun append_registration ::
  "string \<Rightarrow> Registration \<Rightarrow> (string \<times> Registration list) list \<Rightarrow> (string \<times> Registration list) list"
where
  "append_registration ev r [] = [(ev, [r])]"
| "append_registration ev r ((k, rs) # rest) =
     (if k = ev then (k, rs @ [r]) # rest else (k, rs) # append_registration ev r rest)"

definition Mediator_register :: "StoreEvent \<Rightarrow> string \<Rightarrow> nat \<Rightarrow> Mediator \<Rightarrow> Mediator" where
  "Mediator_register event src h m =
     m\<lparr>registrations :=
         append_registration (event_name event) \<lparr>source = src, handler = h\<rparr> (registrations m)\<rparr>"

section \<open>The process: storage, mediator, heap, console\<close>

text \<open>
  What the store shares with the rest of the process:
  \<^item> the durable key/value backend (\<open>localStorage\<close>);
  \<^item> the static field \<open>StoreBase._mediator\<close> (\<open>mediator\<close>), which is absent or refers to
    one of the \<open>Mediator\<close> instances (\<open>mediatorObjects\<close>); \<open>new Mediator()\<close> takes the
    next free reference (\<open>nextMediator\<close>);
  \<^item> the heap of objects: the fields of the object at each address, and the next free
    address (\<open>nextObj\<close>);
  \<^item> the console, the trace of handler invocations, and the trace of plugin hook
    invocations as (hook, store name).
\<close>

record world =
  localStorage :: "string \<Rightarrow> jsval option"
  mediator :: "nat option"
  mediatorObjects :: "nat \<Rightarrow> Mediator"
  nextMediator :: nat
  heap :: "nat \<Rightarrow> (string \<times> jsval) list"
  nextObj :: nat
  console :: "string list"
  handled :: "(nat \<times> string \<times> jsval) list"
  hooksFired :: "(nat \<times> string) list"

text \<open>\<open>new Mediator()\<close>: a fresh instance, returned by reference.\<close>

definition Mediator_alloc :: "world \<Rightarrow> nat \<times> world" where
  "Mediator_alloc w =
     (nextMediator w,
      w\<lparr>mediatorObjects := (mediatorObjects w)(nextMediator w := Mediator_new),
        nextMediator := Suc (nextMediator w)\<rparr>)"

text \<open>
  Modelled from the spec: \<open>loadFromStorage\<close>, \<open>saveToStorage\<close> and \<open>clearLocalStorage\<close> of
  \<open>store-persistence.ts\<close>: \<open>load(name)\<close> reads the entry, absent if there is none;
  \<open>save(name, state)\<close> writes it, overwriting a prior entry; \<open>clear(name)\<close> removes it.
  The entry is an encoding of the state, so that an object is written as a copy of what
  it is at the time of the write, and read as a new object: \<open>copy_value\<close> puts the fields
  of an object at the next free address. (The only change in place of this model is that
  of the fields of the state object itself, by \<open>mutate\<close>; a copy of these fields is
  therefore as good as a deep copy.)
\<close>

fun copy_value :: "jsval \<Rightarrow> world \<Rightarrow> jsval \<times> world" where
  "copy_value (Obj a) w =
     (Obj (nextObj w),
      w\<lparr>heap := (heap w)(nextObj w := heap w a), nextObj := Suc (nextObj w)\<rparr>)"
| "copy_value v w = (v, w)"

definition loadFromStorage :: "string \<Rightarrow> world \<Rightarrow> jsval option \<times> world" where
  "loadFromStorage key w =
     (case localStorage w key of
        None \<Rightarrow> (None, w)
      | Some v \<Rightarrow> (case copy_value v w of (v', w') \<Rightarrow> (Some v', w')))"

definition saveToStorage :: "string \<Rightarrow> jsval \<Rightarrow> world \<Rightarrow> world" where
  "saveToStorage key v w =
     (case copy_value v w of
        (v', w') \<Rightarrow> w'\<lparr>localStorage := (localStorage w')(key \<mapsto> v')\<rparr>)"

definition clearLocalStorage :: "string \<Rightarrow> world \<Rightarrow> world" where
  "clearLocalStorage key w = w\<lparr>localStorage := (localStorage w)(key := None)\<rparr>"

text \<open>
  Modelled from the spec: \<open>publish(event, payload)\<close> invokes the handler of every
  registration of the event, in registration order, appends the payload to the event's
  ledger and returns the source names of the handlers that ran.
\<close>

definition Mediator_publish ::
  "StoreEvent \<Rightarrow> jsval \<Rightarrow> Mediator \<Rightarrow> world \<Rightarrow> string list \<times> Mediator \<times> world"
where
  "Mediator_publish event payload m w =
     (let rs = registrations_of m (event_name event) in
      (map source rs,
       m\<lparr>ledger := (ledger m)(event_name event := ledger m (event_name event) @ [payload])\<rparr>,
       w\<lparr>handled := handled w @ map (\<lambda>r. (handler r, event_name event, payload)) rs\<rparr>))"

text \<open>
  Modelled from the spec: \<open>replay(source)\<close> takes every registration that belongs to the
  source and invokes its handler once for each payload in the ledger of its event, in
  publish order.
\<close>

definition Mediator_replay :: "string \<Rightarrow> Mediator \<Rightarrow> world \<Rightarrow> world" where
  "Mediator_replay src m w =
     w\<lparr>handled := handled w @
         concat (map (\<lambda>(ev, rs).
                   concat (map (\<lambda>r. map (\<lambda>p. (handler r, ev, p)) (ledger m ev))
                               (filter (\<lambda>r. source r = src) rs)))
                 (registrations m))\<rparr>"

section \<open>The store\<close>

text \<open>
  The host framework is an external collaborator. What the store asks of it:
  \<^item> an injection context at construction. \<open>inject(Injector)\<close> and \<open>effect(..)\<close> work
    inside one only; outside they throw. The context is a parameter of the constructor:
    the injector of the ambient context, or the framework's error when there is none;
  \<^item> \<open>runInInjectionContext(injector, fn)\<close>: runs \<open>fn\<close> with \<open>injector\<close> as the current
    injection context. The store passes \<open>this.injector!\<close>; the assertion \<open>!\<close> is erased
    at run time, so an absent injector is passed on as it is;
  \<^item> \<open>inject(token)\<close> inside a query: the resolution of a token in the current context
    is a parameter of \<open>runQuery\<close>;
  \<^item> \<open>signal\<close>: \<open>set(v)\<close> replaces the value and notifies, unless \<open>v\<close> equals the current
    value (\<open>signal_equal\<close>); \<open>update(f)\<close> is \<open>set(f(value))\<close>; \<open>mutate(m)\<close> runs \<open>m\<close> on the
    current value, in place, and always notifies;
  \<^item> \<open>effect\<close>: the registered function does not run at registration nor at a
    notification; it is scheduled then (\<open>effectPending\<close>), and it runs, once, when the
    framework next flushes its effects (\<open>flush\<close>).
\<close>

datatype error = FrameworkError string

datatype Injector = Injector nat

record Store =
  state :: jsval
  config :: RequiredConfig
  history :: "StoreHistory option"
  injector :: "Injector option"
  effectPending :: bool

record StoreQuery =
  stores :: "string list"
  query :: "jsval list \<Rightarrow> jsval"

text \<open>
  \<open>StorePlugin\<close> of \<open>store-plugin.ts\<close>: every member is optional; a hook is a callback,
  represented by an identifier.
\<close>

record StorePlugin =
  precedence :: "int option"
  init :: "nat option"
  preprocessCommand :: "nat option"
  postprocessCommand :: "nat option"
  preprocessEffect :: "nat option"
  postprocessEffect :: "nat option"

subsection \<open>StoreBase\<close>

text \<open>
  The static getter \<open>mediator\<close>: when the static field is empty it creates a mediator and
  keeps it in the field; it returns the mediator of the field.
\<close>

definition StoreBase_mediator :: "world \<Rightarrow> nat \<times> world" where
  "StoreBase_mediator w =
     (case mediator w of
        None \<Rightarrow> (case Mediator_alloc w of (r, w') \<Rightarrow> (r, w'\<lparr>mediator := Some r\<rparr>))
      | Some r \<Rightarrow> (r, w))"

definition StoreBase_constructor :: "bool \<Rightarrow> world \<Rightarrow> world" where
  "StoreBase_constructor enableEvents_arg w =
     (if enableEvents_arg \<and> mediator w = None
      then (case Mediator_alloc w of (r, w') \<Rightarrow> w'\<lparr>mediator := Some r\<rparr>)
      else w)"

subsection \<open>Logging\<close>

text \<open>
  \<open>console.log(`[${store}->${context}] ${action}`, ...optionalParams)\<close>: the console
  keeps the formatted line; the optional parameters are not kept.
\<close>

definition logWithGeneralStore :: "Store \<Rightarrow> string \<Rightarrow> string \<Rightarrow> string \<Rightarrow> world \<Rightarrow> world" where
  "logWithGeneralStore s store context action w =
     (if enableLogging (config s)
      then w\<lparr>console := console w @ [''['' @ store @ ''->'' @ context @ ''] '' @ action]\<rparr>
      else w)"

definition log_store :: "Store \<Rightarrow> string \<Rightarrow> string \<Rightarrow> world \<Rightarrow> world" where
  "log_store s context action w = logWithGeneralStore s (name (config s)) context action w"

subsection \<open>State replacement and the persistence effect\<close>

text \<open>
  \<open>this._state.set(v)\<close>. A notification schedules the persistence effect when the
  constructor registered one (that is, when \<open>enableLocalStorageSync\<close> is on); nothing is
  written to the backend here.
\<close>

fun state_set :: "jsval \<Rightarrow> Store \<times> world \<Rightarrow> Store \<times> world" where
  "state_set v (s, w) =
     (if signal_equal (state s) v then (s, w)
      else (s\<lparr>state := v,
              effectPending := (effectPending s \<or> enableLocalStorageSync (config s))\<rparr>, w))"

text \<open>
  The framework flushes its effects: the effect of the constructor,
  \<open>() => saveToStorage(this.config.name, this._state())\<close>, runs if it is scheduled, with
  the state of that moment.
\<close>

fun flush :: "Store \<times> world \<Rightarrow> Store \<times> world" where
  "flush (s, w) =
     (if effectPending s
      then (s\<lparr>effectPending := False\<rparr>, saveToStorage (name (config s)) (state s) w)
      else (s, w))"

subsection \<open>Constructor\<close>

text \<open>
  With \<open>enableLocalStorageSync\<close> the constructor reads the backend, creates the signal
  and registers the effect, in this order; \<open>effect(..)\<close> throws outside an injection
  context, and inside one it is scheduled for its first run.
\<close>

definition Store_constructor ::
  "string \<Rightarrow> error + Injector \<Rightarrow> StoreConfig \<Rightarrow> world \<Rightarrow> (error + Store) \<times> world"
where
  "Store_constructor className injected c w0 =
     (let w1 = StoreBase_constructor (flag_or_false (enableEvents_opt c)) w0;
          cfg = \<lparr>name = (case name_opt c of None \<Rightarrow> className | Some n \<Rightarrow> n),
                 initialState = initialState_in c,
                 enableEvents = flag_or_false (enableEvents_opt c),
                 enableEffectsAndQueries = flag_or_false (enableEffectsAndQueries_opt c),
                 enableLogging = flag_or_false (enableLogging_opt c),
                 enableStateHistory = flag_or_false (enableStateHistory_opt c),
                 enableLocalStorageSync = flag_or_false (enableLocalStorageSync_opt c)\<rparr>;
          hist = (if flag_or_false (enableStateHistory_opt c) then Some StoreHistory_new else None);
          injectorOrError =
            (if flag_or_false (enableEffectsAndQueries_opt c)
             then (case injected of Inl e \<Rightarrow> Inl e | Inr i \<Rightarrow> Inr (Some i))
             else Inr None)
      in case injectorOrError of
           Inl e \<Rightarrow> (Inl e, w1)
         | Inr i \<Rightarrow>
             if flag_or_false (enableLocalStorageSync_opt c) then
               (case loadFromStorage (name cfg) w1 of
                  (loaded, w2) \<Rightarrow>
                    let persistedState = or_undefined loaded in
                    (case injected of
                       Inl e \<Rightarrow> (Inl e, w2)
                     | Inr ctx \<Rightarrow>
                         let s = \<lparr>state = nullish_coalesce persistedState (initialState_in c),
                                  config = cfg, history = hist, injector = i,
                                  effectPending = True\<rparr>
                         in (Inr s,
                             log_store s ''Init''
                               (if truthy persistedState
                                then ''Store initialized from local storage''
                                else ''local storage is empty; store initialized using configured initial state'')
                               w2)))
             else
               let s = \<lparr>state = initialState_in c, config = cfg, history = hist, injector = i,
                        effectPending = False\<rparr>
               in (Inr s, log_store s ''Init'' ''Store initialized'' w1))"

subsection \<open>Reading\<close>

definition getHistory :: "Store \<Rightarrow> HistoryItem list" where
  "getHistory s = (case history s of None \<Rightarrow> [] | Some h \<Rightarrow> StoreHistory_entries h)"

subsection \<open>Commands\<close>

text \<open>
  \<open>set\<close> and \<open>update\<close> replace the state by a value: a primitive, or an object of the
  heap (an object that an update function creates is taken as allocated beforehand).
  \<open>mutate\<close> hands the state to the mutator, which changes it in place: the mutator is
  given by what it does to the fields of the state object. It cannot change a state that
  is a primitive. The history holds the states it is given as they are, an object by
  reference. \<open>runEffect\<close> runs arbitrary code of the application and is left out; no
  property below is about it.
\<close>

fun clearPersistence :: "Store \<times> world \<Rightarrow> Store \<times> world" where
  "clearPersistence (s, w) = (s, clearLocalStorage (name (config s)) w)"

definition addToHistory :: "string option \<Rightarrow> Store \<Rightarrow> Store" where
  "addToHistory currentCommandName s =
     (case history s of
        None \<Rightarrow> s
      | Some h \<Rightarrow>
          s\<lparr>history := Some (StoreHistory_add (state s)
              (case currentCommandName of None \<Rightarrow> ''Unspecified'' | Some c \<Rightarrow> c) h)\<rparr>)"

fun set_store :: "jsval \<Rightarrow> string option \<Rightarrow> Store \<times> world \<Rightarrow> Store \<times> world" where
  "set_store newState commandName (s, w) =
     (case state_set newState (addToHistory commandName s, w) of
        (s', w') \<Rightarrow>
          (s', log_store s' ''Command''
                 (case commandName of None \<Rightarrow> ''unspecified command'' | Some c \<Rightarrow> c) w'))"

fun update :: "(jsval \<Rightarrow> jsval) \<Rightarrow> string option \<Rightarrow> Store \<times> world \<Rightarrow> Store \<times> world" where
  "update updateFn commandName (s, w) =
     (let s1 = addToHistory commandName s in
      case state_set (updateFn (state s1)) (s1, w) of
        (s', w') \<Rightarrow>
          (s', log_store s' ''Command''
                 (case commandName of None \<Rightarrow> ''unspecified command'' | Some c \<Rightarrow> c) w'))"



subsection \<open>Undo and redo\<close>

fun undo :: "Store \<times> world \<Rightarrow> Store \<times> world" where
  "undo (s, w) =
     (case history s of
        None \<Rightarrow>
          (s, log_store s ''Undo''
                ''Attempted to perform an undo action, but enableStateHistory is not active'' w)
      | Some h \<Rightarrow>
          (case StoreHistory_undo (state s) h of
             (r, h') \<Rightarrow>
               let s1 = s\<lparr>history := Some h'\<rparr>; newState = or_undefined r in
               if truthy newState
               then state_set newState (s1, log_store s1 ''Undo'' ''Performed an undo action'' w)
               else (s1, log_store s1 ''Undo''
                           ''Attempted to perform an undo action but the state history is empty'' w)))"

fun redo :: "Store \<times> world \<Rightarrow> Store \<times> world" where
  "redo (s, w) =
     (case history s of
        None \<Rightarrow>
          (s, log_store s ''Redo''
                ''Attempted to perform a redo action, but enableStateHistory is not active'' w)
      | Some h \<Rightarrow>
          (case StoreHistory_redo (state s) h of
             (r, h') \<Rightarrow>
               let s1 = s\<lparr>history := Some h'\<rparr>; newState = or_undefined r in
               if truthy newState
               then (case state_set newState (s1, w) of
                       (s', w') \<Rightarrow> (s', log_store s' ''Redo'' ''Performed a redo action'' w'))
               else (s1, log_store s1 ''Redo''
                           ''Attempted to perform a redo action, but the prior action was not an undo action'' w)))"

subsection \<open>Events\<close>

fun registerHandler :: "StoreEvent \<Rightarrow> nat \<Rightarrow> bool \<Rightarrow> Store \<times> world \<Rightarrow> Store \<times> world" where
  "registerHandler event h withReplay (s, w) =
     (let src = name (config s) in
      case StoreBase_mediator w of
        (r, w1) \<Rightarrow>
          let w2 = w1\<lparr>mediatorObjects :=
                       (mediatorObjects w1)
                         (r := Mediator_register event src h (mediatorObjects w1 r))\<rparr>;
              w3 = (if withReplay
                    then (case StoreBase_mediator w2 of
                            (r2, w2') \<Rightarrow> Mediator_replay src (mediatorObjects w2' r2) w2')
                    else w2)
          in (s, log_store s ''Init'' (''Register handler for event '' @ event_name event) w3))"

fun publish :: "StoreEvent \<Rightarrow> jsval \<Rightarrow> Store \<times> world \<Rightarrow> Store \<times> world" where
  "publish event payload (s, w) =
     (let w1 = (if enableLogging (config s)
                then log_store s ''Event'' (''Publish event '' @ event_name event) w
                else w)
      in case StoreBase_mediator w1 of
           (r, w2) \<Rightarrow>
             (case Mediator_publish event payload (mediatorObjects w2 r) w2 of
                (executedHandlerSources, m', w3) \<Rightarrow>
                  (s, foldl (\<lambda>wa handlerSource.
                               logWithGeneralStore s handlerSource ''Handler'' ''Handled Event'' wa)
                            (w3\<lparr>mediatorObjects := (mediatorObjects w3)(r := m')\<rparr>)
                            executedHandlerSources)))"

subsection \<open>Queries\<close>

definition runInInjectionContext :: "Injector option \<Rightarrow> (Injector option \<Rightarrow> 'a) \<Rightarrow> 'a" where
  "runInInjectionContext ctx fn = fn ctx"

text \<open>\<open>storeQuery.stores.map(x => inject(x))\<close>: the first failing resolution throws.\<close>

fun inject_each :: "(string \<Rightarrow> error + jsval) \<Rightarrow> string list \<Rightarrow> error + jsval list" where
  "inject_each inject_fn [] = Inr []"
| "inject_each inject_fn (x # xs) =
     (case inject_fn x of
        Inl e \<Rightarrow> Inl e
      | Inr v \<Rightarrow> (case inject_each inject_fn xs of Inl e \<Rightarrow> Inl e | Inr vs \<Rightarrow> Inr (v # vs)))"

definition runQuery ::
  "(Injector option \<Rightarrow> string \<Rightarrow> error + jsval) \<Rightarrow> Store \<Rightarrow> StoreQuery \<Rightarrow> jsval list \<Rightarrow> error + jsval"
where
  "runQuery inject_fn s storeQuery args =
     runInInjectionContext (injector s)
       (\<lambda>current.
          case inject_each (inject_fn current) (stores storeQuery) of
            Inl e \<Rightarrow> Inl e
          | Inr deps \<Rightarrow> Inr (query storeQuery (deps @ args)))"

text \<open>
  The resolution of the host framework, for the examples: outside an injection context
  \<open>inject\<close> fails; inside one, a store token resolves to its instance, represented by
  the token's name.
\<close>

fun host_inject :: "Injector option \<Rightarrow> string \<Rightarrow> error + jsval" where
  "host_inject None token = Inl (FrameworkError ''inject() must be called from an injection context'')"
| "host_inject (Some i) token = Inr (Str token)"

section \<open>Example stores\<close>

definition emptyWorld :: world where
  "emptyWorld =
     \<lparr>localStorage = (\<lambda>_. None), mediator = None, mediatorObjects = (\<lambda>_. Mediator_new),
      nextMediator = 0, heap = (\<lambda>_. []), nextObj = 0, console = [], handled = [],
      hooksFired = []\<rparr>"

text \<open>A store that is built outside an injection context, and one that is built inside.\<close>

definition noInjectionContext :: "error + Injector" where
  "noInjectionContext =
     Inl (FrameworkError ''inject() must be called from an injection context'')"

definition rootInjectionContext :: "error + Injector" where
  "rootInjectionContext = Inr (Injector 0)"

text \<open>
  The README's counter, \<open>Store<number>\<close> with \<open>initialState: 0\<close> and
  \<open>increment = () => this.update(state => state + 1)\<close>, here with the history switched on.
\<close>

definition counterConfig :: StoreConfig where
  "counterConfig =
     \<lparr>name_opt = Some ''counter'', initialState_in = Num 0, enableEvents_opt = None,
      enableEffectsAndQueries_opt = None, enableLogging_opt = None,
      enableStateHistory_opt = Some True, enableLocalStorageSync_opt = None\<rparr>"

definition counterStore :: Store where
  "counterStore =
     \<lparr>state = Num 0,
      config = \<lparr>name = ''counter'', initialState = Num 0, enableEvents = False,
                enableEffectsAndQueries = False, enableLogging = False,
                enableStateHistory = True, enableLocalStorageSync = False\<rparr>,
      history = Some \<lparr>undoStack = [], redoStack = []\<rparr>,
      injector = None,
      effectPending = False\<rparr>"

fun increment :: "jsval \<Rightarrow> jsval" where
  "increment (Num n) = Num (round_to_double (n + 1))"
| "increment v = v"

text \<open>The same store with \<open>enableLogging\<close> on.\<close>

definition withLogging :: "Store \<Rightarrow> Store" where
  "withLogging s = s\<lparr>config := (config s)\<lparr>enableLogging := True\<rparr>\<rparr>"

definition twoIncrements :: "Store \<times> world" where
  "twoIncrements = update increment None (update increment None (counterStore, emptyWorld))"

definition threeIncrements :: "Store \<times> world" where
  "threeIncrements = update increment None twoIncrements"

text \<open>The counter without a history.\<close>

definition plainStore :: Store where
  "plainStore = counterStore\<lparr>history := None\<rparr>"

text \<open>A store with a history that starts at \<open>5\<close>, and the same after \<open>set(0)\<close>.\<close>

definition fiveStore :: Store where
  "fiveStore = counterStore\<lparr>state := Num 5\<rparr>"

definition fiveThenZero :: "Store \<times> world" where
  "fiveThenZero = set_store (Num 0) None (fiveStore, emptyWorld)"

text \<open>The store that starts at \<open>5\<close> after \<open>set(7)\<close> and \<open>undo()\<close>: its undo-stack is empty.\<close>

definition sevenUndone :: "Store \<times> world" where
  "sevenUndone = undo (set_store (Num 7) None (fiveStore, emptyWorld))"




text \<open>
  A store that is synchronised with the backend, as the constructor builds it inside an
  injection context; the backend after the first run of its effect, and with one more
  entry.
\<close>

definition settingsConfig :: StoreConfig where
  "settingsConfig =
     \<lparr>name_opt = Some ''settings'', initialState_in = Str ''light'', enableEvents_opt = None,
      enableEffectsAndQueries_opt = None, enableLogging_opt = None,
      enableStateHistory_opt = None, enableLocalStorageSync_opt = Some True\<rparr>"

definition settingsStore :: Store where
  "settingsStore =
     \<lparr>state = Str ''light'',
      config = \<lparr>name = ''settings'', initialState = Str ''light'', enableEvents = False,
                enableEffectsAndQueries = False, enableLogging = False,
                enableStateHistory = False, enableLocalStorageSync = True\<rparr>,
      history = None,
      injector = None,
      effectPending = True\<rparr>"

definition settingsWorld :: world where
  "settingsWorld = saveToStorage ''settings'' (Str ''light'') emptyWorld"

definition sharedWorld :: world where
  "sharedWorld = saveToStorage ''other'' (Num 7) settingsWorld"

text \<open>Two queries: one that declares no store, one that declares a store.\<close>

definition constantQuery :: StoreQuery where
  "constantQuery = \<lparr>stores = [], query = (\<lambda>_. Num 42)\<rparr>"

definition otherStoreQuery :: StoreQuery where
  "otherStoreQuery =
     \<lparr>stores = [''OtherStore''], query = (\<lambda>args. Num (int (length args)))\<rparr>"

text \<open>
  Two values are the same state when they are the same primitive, or objects with the
  same fields.
\<close>

definition same_value :: "world \<Rightarrow> jsval \<Rightarrow> world \<Rightarrow> jsval \<Rightarrow> bool" where
  "same_value w v w' v' =
     (case v of
        Obj a \<Rightarrow> (case v' of Obj a' \<Rightarrow> heap w' a' = heap w a | _ \<Rightarrow> False)
      | _ \<Rightarrow> v' = v)"

section \<open>The plugin chain of the spec\<close>

text \<open>
  Modelled from the spec: the plugin interceptor chain, of which the sources hold the
  type \<open>StorePlugin\<close> only. The plugins are ordered by descending precedence, ties in
  registration order (a plugin without a precedence counts as \<open>0\<close>); \<open>init(container)\<close>
  is fired once for every plugin that has the hook, highest precedence first.
  \<open>spec_init_calls\<close> is the trace of these calls for a store of the given name.
\<close>

definition spec_init_calls :: "string \<Rightarrow> StorePlugin list \<Rightarrow> (nat \<times> string) list" where
  "spec_init_calls storeName plugins =
     map (\<lambda>hook. (hook, storeName))
       (List.map_filter init
          (sort_key (\<lambda>p. - (case precedence p of None \<Rightarrow> 0 | Some n \<Rightarrow> n)) plugins))"

definition loggerPlugin :: StorePlugin where
  "loggerPlugin =
     \<lparr>precedence = Some 10, init = Some 1, preprocessCommand = None,
      postprocessCommand = None, preprocessEffect = None, postprocessEffect = None\<rparr>"

section \<open>Properties\<close>

lemmas store_defs =
  Store_constructor_def Let_def StoreBase_constructor_def log_store_def
  logWithGeneralStore_def addToHistory_def StoreHistory_new_def StoreHistory_add_def
  StoreHistory_undo_def StoreHistory_redo_def getHistory_def StoreHistory_entries_def

subsection \<open>What logging, the backend and the base constructor leave alone\<close>

lemma round_to_double_small [simp]:
  "\<bar>x\<bar> \<le> 9007199254740992 \<Longrightarrow> round_to_double x = x"
  by (simp add: round_to_double_def)

lemma signal_equal_eq:
  "signal_equal a b \<Longrightarrow> a = b"
  by (cases a) simp_all

lemma log_store_frame [simp]:
  "localStorage (log_store s c a w) = localStorage w"
  "mediator (log_store s c a w) = mediator w"
  "mediatorObjects (log_store s c a w) = mediatorObjects w"
  "nextMediator (log_store s c a w) = nextMediator w"
  "heap (log_store s c a w) = heap w"
  "nextObj (log_store s c a w) = nextObj w"
  "handled (log_store s c a w) = handled w"
  "hooksFired (log_store s c a w) = hooksFired w"
  by (simp_all add: log_store_def logWithGeneralStore_def)

lemma copy_value_frame [simp]:
  "localStorage (snd (copy_value v w)) = localStorage w"
  "mediator (snd (copy_value v w)) = mediator w"
  "mediatorObjects (snd (copy_value v w)) = mediatorObjects w"
  "nextMediator (snd (copy_value v w)) = nextMediator w"
  "console (snd (copy_value v w)) = console w"
  "handled (snd (copy_value v w)) = handled w"
  "hooksFired (snd (copy_value v w)) = hooksFired w"
  by (cases v; simp)+

lemma saveToStorage_frame [simp]:
  "mediator (saveToStorage k v w) = mediator w"
  "mediatorObjects (saveToStorage k v w) = mediatorObjects w"
  "nextMediator (saveToStorage k v w) = nextMediator w"
  "console (saveToStorage k v w) = console w"
  "handled (saveToStorage k v w) = handled w"
  "hooksFired (saveToStorage k v w) = hooksFired w"
  "localStorage (saveToStorage k v w) = (localStorage w)(k \<mapsto> fst (copy_value v w))"
  by (cases v; simp add: saveToStorage_def)+

lemma loadFromStorage_frame [simp]:
  "localStorage (snd (loadFromStorage k w)) = localStorage w"
  "mediator (snd (loadFromStorage k w)) = mediator w"
  "mediatorObjects (snd (loadFromStorage k w)) = mediatorObjects w"
  "nextMediator (snd (loadFromStorage k w)) = nextMediator w"
  "console (snd (loadFromStorage k w)) = console w"
  "handled (snd (loadFromStorage k w)) = handled w"
  "hooksFired (snd (loadFromStorage k w)) = hooksFired w"
  by (cases "localStorage w k"; simp add: loadFromStorage_def split_def)+

lemma StoreBase_constructor_frame [simp]:
  "localStorage (StoreBase_constructor b w) = localStorage w"
  "heap (StoreBase_constructor b w) = heap w"
  "nextObj (StoreBase_constructor b w) = nextObj w"
  "console (StoreBase_constructor b w) = console w"
  "handled (StoreBase_constructor b w) = handled w"
  "hooksFired (StoreBase_constructor b w) = hooksFired w"
  by (simp_all add: StoreBase_constructor_def Mediator_alloc_def)

subsection \<open>The example stores are what the constructor builds\<close>

lemma counterStore_constructed:
  "Store_constructor ''CounterStore'' noInjectionContext counterConfig emptyWorld
     = (Inr counterStore, emptyWorld)"
  by (simp add: store_defs counterConfig_def counterStore_def emptyWorld_def)

lemma settingsStore_constructed:
  "Store_constructor ''SettingsStore'' rootInjectionContext settingsConfig emptyWorld
     = (Inr settingsStore, emptyWorld)"
  by (simp add: store_defs settingsConfig_def settingsStore_def emptyWorld_def
      rootInjectionContext_def loadFromStorage_def nullish_coalesce_def)

lemma twoIncrements_eq:
  "twoIncrements =
     (counterStore\<lparr>state := Num 2,
        history := Some \<lparr>undoStack = [\<lparr>entry_state = Num 0, commandLabel = ''Unspecified''\<rparr>,
                                     \<lparr>entry_state = Num 1, commandLabel = ''Unspecified''\<rparr>],
                         redoStack = []\<rparr>\<rparr>, emptyWorld)"
  by (simp add: twoIncrements_def store_defs counterStore_def)

subsection \<open>Undo of a falsy snapshot\<close>

text \<open>
  Claim C1. When \<open>undo()\<close> is called and the history has a prior snapshot, the state is
  to be replaced with that snapshot whatever its value, so that N undos after N
  set/update calls walk back to the initial state. The code tests the snapshot with
  \<open>if (newState)\<close>: on the counter, after one \<open>increment\<close> the history holds the snapshot
  \<open>0\<close>; \<open>undo()\<close> pops it, finds it falsy, leaves the state at \<open>1\<close> and logs that the
  history is empty.
\<close>

theorem undo_skips_falsy_snapshot:
  "Store_constructor ''CounterStore'' noInjectionContext counterConfig emptyWorld
     = (Inr counterStore, emptyWorld)
   \<and> state (fst (update increment None (counterStore, emptyWorld))) = Num 1
   \<and> getHistory (fst (update increment None (counterStore, emptyWorld)))
       = [\<lparr>entry_state = Num 0, commandLabel = ''Unspecified''\<rparr>]
   \<and> state (fst (undo (update increment None (counterStore, emptyWorld)))) = Num 1
   \<and> getHistory (fst (undo (update increment None (counterStore, emptyWorld)))) = []
   \<and> console (snd (undo (update increment None (withLogging counterStore, emptyWorld))))
       = [''[counter->Command] unspecified command'',
          ''[counter->Undo] Attempted to perform an undo action but the state history is empty'']"
  by (simp add: counterStore_constructed)
     (simp add: store_defs counterStore_def emptyWorld_def withLogging_def)

subsection \<open>Construction and plugins\<close>

text \<open>
  Claim C2, as amended. Constructing a store fires no plugin hook: the constructor takes
  no plugin and calls none, whatever the configuration and the outcome of the
  construction. (The claim asks for one \<open>init\<close> call per registered plugin, in descending
  precedence.)
\<close>

theorem constructor_fires_no_plugin_hook:
  "hooksFired (snd (Store_constructor className injected c w)) = hooksFired w"
proof -
  have "hooksFired (snd (loadFromStorage k (StoreBase_constructor b w))) = hooksFired w" for k b
    by simp
  then show ?thesis
    by (simp add: Store_constructor_def Let_def split_def split: sum.splits)
qed

text \<open>
  With one plugin that has an \<open>init\<close> hook, the spec's chain has one call; the
  construction of the counter has none.
\<close>

theorem constructor_fires_no_plugin_hook_counterexample:
  "Store_constructor ''CounterStore'' noInjectionContext counterConfig emptyWorld
     = (Inr counterStore, emptyWorld)
   \<and> spec_init_calls ''counter'' [loggerPlugin] = [(1, ''counter'')]
   \<and> hooksFired (snd (Store_constructor ''CounterStore'' noInjectionContext counterConfig emptyWorld))
       \<noteq> hooksFired emptyWorld @ spec_init_calls ''counter'' [loggerPlugin]"
  by (simp add: counterStore_constructed)
     (simp add: spec_init_calls_def loggerPlugin_def List.map_filter_simps emptyWorld_def)

subsection \<open>Queries without an execution context\<close>

lemma inject_each_error:
  "inject_each f ts = Inl e \<Longrightarrow> \<exists>t\<in>set ts. f t = Inl e"
  by (induction ts) (auto split: sum.splits)

lemma constructed_without_injector:
  assumes "\<not> flag_or_false (enableEffectsAndQueries_opt c)"
      and "Store_constructor className injected c w = (Inr s, w')"
  shows "injector s = None"
  using assms by (auto simp: Store_constructor_def Let_def split: if_splits prod.splits sum.splits)

text \<open>
  Claim C3, as amended. A store constructed with \<open>enableEffectsAndQueries\<close> off has no
  injector, and \<open>runQuery\<close> makes no check of its own: it runs the query with no injection
  context. A query that declares no store returns its result; a failure of \<open>runQuery\<close> is
  the failure of the framework's \<open>inject\<close>, outside an injection context, on one of the
  stores the query declares. (The claim asks for a \<open>ConfigurationError\<close>.)
\<close>

theorem runQuery_without_execution_context:
  assumes "\<not> flag_or_false (enableEffectsAndQueries_opt c)"
      and "Store_constructor className injected c w = (Inr s, w')"
  shows "(stores q = [] \<longrightarrow> runQuery inject_fn s q args = Inr (query q args))
       \<and> (\<forall>e. runQuery inject_fn s q args = Inl e \<longrightarrow>
             (\<exists>t\<in>set (stores q). inject_fn None t = Inl e))"
proof -
  have none: "injector s = None"
    using assms by (rule constructed_without_injector)
  have body: "runQuery inject_fn s q args =
      (case inject_each (inject_fn None) (stores q) of
         Inl e \<Rightarrow> Inl e
       | Inr deps \<Rightarrow> Inr (query q (deps @ args)))"
    by (simp add: runQuery_def runInInjectionContext_def none)
  show ?thesis
    by (auto simp: body dest: inject_each_error split: sum.splits)
qed

theorem runQuery_without_execution_context_witness:
  "\<not> flag_or_false (enableEffectsAndQueries_opt counterConfig)
   \<and> Store_constructor ''CounterStore'' noInjectionContext counterConfig emptyWorld
       = (Inr counterStore, emptyWorld)
   \<and> runQuery host_inject counterStore constantQuery [Str ''x''] = Inr (Num 42)
   \<and> runQuery host_inject counterStore otherStoreQuery []
       = Inl (FrameworkError ''inject() must be called from an injection context'')
   \<and> host_inject None ''OtherStore''
       = Inl (FrameworkError ''inject() must be called from an injection context'')"
proof -
  have h1: "\<not> flag_or_false (enableEffectsAndQueries_opt counterConfig)"
    by (simp add: counterConfig_def)
  note t = runQuery_without_execution_context [OF h1 counterStore_constructed,
      of constantQuery host_inject "[Str ''x'']"]
  have "runQuery host_inject counterStore constantQuery [Str ''x''] = Inr (Num 42)"
    using t by (simp add: constantQuery_def)
  moreover have "runQuery host_inject counterStore otherStoreQuery []
       = Inl (FrameworkError ''inject() must be called from an injection context'')"
    by (simp add: counterStore_def runQuery_def runInInjectionContext_def otherStoreQuery_def)
  ultimately show ?thesis
    using h1 counterStore_constructed by simp
qed

text \<open>
  The counter is built with \<open>enableEffectsAndQueries\<close> off; a query without stores
  runs on it and returns its value.
\<close>

theorem runQuery_without_execution_context_counterexample:
  "Store_constructor ''CounterStore'' noInjectionContext counterConfig emptyWorld
     = (Inr counterStore, emptyWorld)
   \<and> enableEffectsAndQueries (config counterStore) = False
   \<and> runQuery host_inject counterStore constantQuery [] = Inr (Num 42)"
  by (simp add: counterStore_constructed)
     (simp add: counterStore_def runQuery_def runInInjectionContext_def constantQuery_def)

subsection \<open>The default label of a history entry\<close>




subsection \<open>Update and set\<close>

text \<open>
  Claim C5. For every store, update function \<open>f\<close> and optional command name \<open>c\<close>,
  \<open>update(f, c)\<close> and \<open>set(f(s), c)\<close>, with \<open>s\<close> the current state, end in the same store
  (state and history) and leave the same process behind.
\<close>

theorem update_is_set_of_result:
  "update updateFn commandName (s, w) = set_store (updateFn (state s)) commandName (s, w)"
  by (simp add: addToHistory_def Let_def split: option.splits)

subsection \<open>Redo after undo\<close>

text \<open>
  Claim C6, as amended. With the history enabled and an undo-stack that is not empty:
  after \<open>undo()\<close>, the entry that the history hands to the next \<open>redo()\<close> is the state that
  was current before the undo, and \<open>redo()\<close> restores this state when it is truthy; a
  second \<open>redo()\<close> leaves the state unchanged when the redo-stack was empty before the
  undo, as it is after a set or an update. (The claim has \<open>redo()\<close> restore every state,
  and the second \<open>redo()\<close> change nothing after any number of undos.)
\<close>

theorem redo_after_undo:
  assumes "history s = Some h" and "undoStack h \<noteq> []"
  shows "map_option (\<lambda>h1. fst (StoreHistory_redo (state (fst (undo (s, w)))) h1))
            (history (fst (undo (s, w)))) = Some (Some (state s))
       \<and> (truthy (state s) \<longrightarrow> state (fst (redo (undo (s, w)))) = state s)
       \<and> (redoStack h = [] \<longrightarrow>
            state (fst (redo (redo (undo (s, w))))) = state (fst (redo (undo (s, w)))))"
  using assms by (auto simp add: store_defs dest: signal_equal_eq)

theorem redo_after_undo_witness:
  "state (fst twoIncrements) = Num 2
   \<and> state (fst (undo twoIncrements)) = Num 1
   \<and> state (fst (redo (undo twoIncrements))) = Num 2
   \<and> state (fst (redo (redo (undo twoIncrements)))) = Num 2"
proof -
  let ?h = "\<lparr>undoStack = [\<lparr>entry_state = Num 0, commandLabel = ''Unspecified''\<rparr>,
                          \<lparr>entry_state = Num 1, commandLabel = ''Unspecified''\<rparr>],
              redoStack = []\<rparr>"
  let ?s = "counterStore\<lparr>state := Num 2, history := Some ?h\<rparr>"
  have h1: "history ?s = Some ?h" by simp
  have h2: "undoStack ?h \<noteq> []" by simp
  have u: "state (fst (undo twoIncrements)) = Num 1"
    by (simp add: twoIncrements_eq store_defs)
  show ?thesis
    using redo_after_undo [OF h1 h2, of emptyWorld] u
    by (simp add: twoIncrements_eq del: undo.simps redo.simps)
qed

text \<open>
  Three increments and two undos: the first \<open>redo()\<close> gives \<open>2\<close>, the second one \<open>3\<close>.
  From \<open>5\<close>, after \<open>set(0)\<close> and \<open>undo()\<close>, \<open>redo()\<close> is handed \<open>0\<close>, tests it with
  \<open>if (newState)\<close> and leaves the state at \<open>5\<close>. And with an empty undo-stack \<open>undo()\<close>
  changes nothing, and the \<open>redo()\<close> after it applies an entry of an earlier undo.
\<close>

theorem redo_after_undo_counterexample:
  "state (fst threeIncrements) = Num 3
   \<and> state (fst (undo (undo threeIncrements))) = Num 1
   \<and> state (fst (redo (undo (undo threeIncrements)))) = Num 2
   \<and> state (fst (redo (redo (undo (undo threeIncrements))))) = Num 3
   \<and> state (fst (redo (redo (undo (undo threeIncrements)))))
       \<noteq> state (fst (redo (undo (undo threeIncrements))))
   \<and> state (fst fiveThenZero) = Num 0
   \<and> state (fst (undo fiveThenZero)) = Num 5
   \<and> state (fst (redo (undo fiveThenZero))) = Num 5
   \<and> state (fst (redo (undo fiveThenZero))) \<noteq> state (fst fiveThenZero)
   \<and> getHistory (fst sevenUndone) = []
   \<and> state (fst sevenUndone) = Num 5
   \<and> state (fst (redo (undo sevenUndone))) = Num 7
   \<and> state (fst (redo (undo sevenUndone))) \<noteq> state (fst sevenUndone)"
  by (simp add: threeIncrements_def twoIncrements_def fiveThenZero_def sevenUndone_def
      fiveStore_def store_defs counterStore_def)

subsection \<open>Undo and redo with nothing to apply\<close>

text \<open>
  Claim C7. When the history is disabled or the undo-stack is empty, \<open>undo()\<close> returns
  with the store as it was; the process changes by one notice on the console, and only
  if logging is enabled. The same holds of \<open>redo()\<close> and the redo-stack.
\<close>

theorem undo_redo_soft_failure:
  "((case history s of None \<Rightarrow> True | Some h \<Rightarrow> undoStack h = []) \<longrightarrow>
      fst (undo (s, w)) = s
      \<and> snd (undo (s, w)) =
          w\<lparr>console := console w @
              (if enableLogging (config s)
               then [''['' @ name (config s) @ ''->Undo] '' @
                     (if history s = None
                      then ''Attempted to perform an undo action, but enableStateHistory is not active''
                      else ''Attempted to perform an undo action but the state history is empty'')]
               else [])\<rparr>)
   \<and> ((case history s of None \<Rightarrow> True | Some h \<Rightarrow> redoStack h = []) \<longrightarrow>
      fst (redo (s, w)) = s
      \<and> snd (redo (s, w)) =
          w\<lparr>console := console w @
              (if enableLogging (config s)
               then [''['' @ name (config s) @ ''->Redo] '' @
                     (if history s = None
                      then ''Attempted to perform a redo action, but enableStateHistory is not active''
                      else ''Attempted to perform a redo action, but the prior action was not an undo action'')]
               else [])\<rparr>)"
  by (cases "history s") (simp_all add: store_defs)

theorem undo_redo_soft_failure_witness:
  "history plainStore = None
   \<and> undo (plainStore, emptyWorld) = (plainStore, emptyWorld)
   \<and> redo (plainStore, emptyWorld) = (plainStore, emptyWorld)
   \<and> history (withLogging counterStore) = Some \<lparr>undoStack = [], redoStack = []\<rparr>
   \<and> fst (undo (withLogging counterStore, emptyWorld)) = withLogging counterStore
   \<and> console (snd (undo (withLogging counterStore, emptyWorld)))
       = [''[counter->Undo] Attempted to perform an undo action but the state history is empty'']
   \<and> fst (redo (withLogging counterStore, emptyWorld)) = withLogging counterStore
   \<and> console (snd (redo (withLogging counterStore, emptyWorld)))
       = [''[counter->Redo] Attempted to perform a redo action, but the prior action was not an undo action'']"
proof -
  have p: "history plainStore = None" "enableLogging (config plainStore) = False"
    by (simp_all add: plainStore_def counterStore_def)
  have c: "history (withLogging counterStore) = Some \<lparr>undoStack = [], redoStack = []\<rparr>"
    "enableLogging (config (withLogging counterStore)) = True"
    "name (config (withLogging counterStore)) = ''counter''"
    by (simp_all add: withLogging_def counterStore_def)
  have e: "console emptyWorld = []" "emptyWorld\<lparr>console := []\<rparr> = emptyWorld"
    by (simp_all add: emptyWorld_def)
  have "undo (plainStore, emptyWorld) = (plainStore, emptyWorld)"
    "redo (plainStore, emptyWorld) = (plainStore, emptyWorld)"
    using undo_redo_soft_failure [of plainStore emptyWorld]
    by (simp_all add: p e prod_eq_iff)
  moreover have "fst (undo (withLogging counterStore, emptyWorld)) = withLogging counterStore"
    "console (snd (undo (withLogging counterStore, emptyWorld)))
       = [''[counter->Undo] Attempted to perform an undo action but the state history is empty'']"
    "fst (redo (withLogging counterStore, emptyWorld)) = withLogging counterStore"
    "console (snd (redo (withLogging counterStore, emptyWorld)))
       = [''[counter->Redo] Attempted to perform a redo action, but the prior action was not an undo action'']"
    using undo_redo_soft_failure [of "withLogging counterStore" emptyWorld]
    by (simp_all add: c e)
  ultimately show ?thesis
    using p c by simp
qed

subsection \<open>Persistence across a reload\<close>

lemma constructed_config:
  assumes "Store_constructor className injected c w = (Inr s, w')"
  shows "name (config s) = (case name_opt c of None \<Rightarrow> className | Some n \<Rightarrow> n)"
    and "enableLocalStorageSync (config s) = flag_or_false (enableLocalStorageSync_opt c)"
  using assms
  by (auto simp: Store_constructor_def Let_def split: if_splits sum.splits prod.splits)

lemma constructed_persisted:
  assumes "flag_or_false (enableLocalStorageSync_opt c)"
      and "Store_constructor className injected c w = (Inr s, w')"
  shows "state s = nullish_coalesce
           (or_undefined (fst (loadFromStorage (name (config s)) (StoreBase_constructor (flag_or_false (enableEvents_opt c)) w))))
           (initialState_in c)"
    and "effectPending s"
    and "heap w' = heap (snd (loadFromStorage (name (config s)) (StoreBase_constructor (flag_or_false (enableEvents_opt c)) w)))"
  using assms
  by (auto simp: Store_constructor_def Let_def split: if_splits sum.splits prod.splits)

lemma set_store_pending:
  assumes "effectPending s"
  shows "effectPending (fst (set_store v cmd (s, w)))"
    and "name (config (fst (set_store v cmd (s, w)))) = name (config s)"
    and "heap (snd (set_store v cmd (s, w))) = heap w"
    and "nextObj (snd (set_store v cmd (s, w))) = nextObj w"
  using assms by (simp_all add: addToHistory_def split: option.splits)

lemma state_after_set:
  "state (fst (set_store v cmd (s, w))) = v"
  by (cases "signal_equal (state (addToHistory cmd s)) v")
     (auto simp add: addToHistory_def dest: signal_equal_eq split: option.splits)

lemma flush_pending:
  assumes "effectPending s"
  shows "snd (flush (s, w)) = saveToStorage (name (config s)) (state s) w"
  using assms by simp

lemma reload_value:
  assumes c2: "flag_or_false (enableLocalStorageSync_opt c2)"
      and built: "Store_constructor className2 injected2 c2 (saveToStorage key v w1) = (Inr s2, w2)"
      and key: "name (config s2) = key"
  shows "if nullish v then state s2 = initialState_in c2 else same_value w1 v w2 (state s2)"
proof -
  let ?w3 = "saveToStorage key v w1"
  let ?w4 = "StoreBase_constructor (flag_or_false (enableEvents_opt c2)) ?w3"
  have st: "state s2 = nullish_coalesce (or_undefined (fst (loadFromStorage key ?w4)))
              (initialState_in c2)"
    using constructed_persisted(1) [OF c2 built] key by simp
  have hp: "heap w2 = heap (snd (loadFromStorage key ?w4))"
    using constructed_persisted(3) [OF c2 built] key by simp
  show ?thesis
  proof (cases v)
    case (Obj a)
    then show ?thesis
      using st hp
      by (simp add: same_value_def loadFromStorage_def saveToStorage_def nullish_coalesce_def)
  qed (use st in \<open>simp_all add: same_value_def loadFromStorage_def saveToStorage_def
        nullish_coalesce_def\<close>)
qed

lemma settingsStore_reload_dark:
  "Store_constructor ''SettingsStore'' rootInjectionContext settingsConfig
      (snd (flush (set_store (Str ''dark'') None (settingsStore, emptyWorld))))
     = (Inr (settingsStore\<lparr>state := Str ''dark''\<rparr>),
        saveToStorage ''settings'' (Str ''dark'') emptyWorld)"
  by (simp add: store_defs settingsConfig_def settingsStore_def emptyWorld_def
      rootInjectionContext_def loadFromStorage_def nullish_coalesce_def saveToStorage_def)

text \<open>
  Claim C8, as amended. For a store constructed with persistence enabled: if the backend
  has no entry under the store's name, the state is the configured \<open>initialState\<close>; and
  after one \<open>set(newValue)\<close> and the next run of the persistence effect (the framework
  flushes its effects), a store constructed under the same name, with persistence
  enabled, starts at \<open>newValue\<close> (an object is read back as a new object with the same
  fields) when \<open>newValue\<close> is neither \<open>null\<close> nor \<open>undefined\<close>, and at its own
  \<open>initialState\<close> otherwise. (The claim has the new store start at \<open>newValue\<close> right after
  the \<open>set\<close>, and for every \<open>newValue\<close>.)
\<close>

theorem persistence_reload:
  "(flag_or_false (enableLocalStorageSync_opt c)
      \<and> Store_constructor className injected c w = (Inr s, w')
      \<and> localStorage w (name (config s)) = None
    \<longrightarrow> state s = initialState_in c)
   \<and> (flag_or_false (enableLocalStorageSync_opt c)
      \<and> Store_constructor className injected c w = (Inr s, w')
      \<and> flag_or_false (enableLocalStorageSync_opt c2)
      \<and> Store_constructor className2 injected2 c2
            (snd (flush (set_store newValue commandName (s, w')))) = (Inr s2, w2)
      \<and> name (config s2) = name (config s)
    \<longrightarrow> (if nullish newValue then state s2 = initialState_in c2
         else same_value w' newValue w2 (state s2)))"
proof (intro conjI impI)
  assume a: "flag_or_false (enableLocalStorageSync_opt c)
      \<and> Store_constructor className injected c w = (Inr s, w')
      \<and> localStorage w (name (config s)) = None"
  then show "state s = initialState_in c"
    using constructed_persisted(1) [of c className injected w s w']
    by (simp add: nullish_coalesce_def loadFromStorage_def)
next
  assume a: "flag_or_false (enableLocalStorageSync_opt c)
      \<and> Store_constructor className injected c w = (Inr s, w')
      \<and> flag_or_false (enableLocalStorageSync_opt c2)
      \<and> Store_constructor className2 injected2 c2
            (snd (flush (set_store newValue commandName (s, w')))) = (Inr s2, w2)
      \<and> name (config s2) = name (config s)"
  let ?sw = "set_store newValue commandName (s, w')"
  have pending: "effectPending s"
    using a constructed_persisted(2) [of c className injected w s w'] by blast
  have p1: "effectPending (fst ?sw)" and n1: "name (config (fst ?sw)) = name (config s)"
    and h1: "heap (snd ?sw) = heap w'"
    using set_store_pending [OF pending, of newValue commandName w'] by blast+
  have fl: "snd (flush ?sw) = saveToStorage (name (config s)) newValue (snd ?sw)"
    using flush_pending [OF p1, of "snd ?sw"] n1 state_after_set [of newValue commandName s w']
    by simp
  have built: "Store_constructor className2 injected2 c2
        (saveToStorage (name (config s)) newValue (snd ?sw)) = (Inr s2, w2)"
    using a fl by simp
  have "if nullish newValue then state s2 = initialState_in c2
        else same_value (snd ?sw) newValue w2 (state s2)"
    using reload_value [OF _ built] a by blast
  then show "if nullish newValue then state s2 = initialState_in c2
         else same_value w' newValue w2 (state s2)"
    by (simp only: same_value_def h1)
qed

theorem persistence_reload_witness:
  "flag_or_false (enableLocalStorageSync_opt settingsConfig)
   \<and> Store_constructor ''SettingsStore'' rootInjectionContext settingsConfig emptyWorld
       = (Inr settingsStore, emptyWorld)
   \<and> localStorage emptyWorld (name (config settingsStore)) = None
   \<and> state settingsStore = Str ''light''
   \<and> \<not> nullish (Str ''dark'')
   \<and> Store_constructor ''SettingsStore'' rootInjectionContext settingsConfig
         (snd (flush (set_store (Str ''dark'') None (settingsStore, emptyWorld))))
       = (Inr (settingsStore\<lparr>state := Str ''dark''\<rparr>),
          saveToStorage ''settings'' (Str ''dark'') emptyWorld)
   \<and> name (config (settingsStore\<lparr>state := Str ''dark''\<rparr>)) = name (config settingsStore)
   \<and> same_value emptyWorld (Str ''dark'')
         (saveToStorage ''settings'' (Str ''dark'') emptyWorld)
         (state (settingsStore\<lparr>state := Str ''dark''\<rparr>))"
proof -
  have h1: "flag_or_false (enableLocalStorageSync_opt settingsConfig)"
    by (simp add: settingsConfig_def)
  have h2: "localStorage emptyWorld (name (config settingsStore)) = None"
    by (simp add: emptyWorld_def)
  have h3: "name (config (settingsStore\<lparr>state := Str ''dark''\<rparr>)) = name (config settingsStore)"
    by simp
  have "state settingsStore = initialState_in settingsConfig"
    using persistence_reload [THEN conjunct1, rule_format, of settingsConfig "''SettingsStore''"
        rootInjectionContext emptyWorld settingsStore emptyWorld]
      h1 h2 settingsStore_constructed
    by simp
  then have a: "state settingsStore = Str ''light''"
    by (simp add: settingsConfig_def)
  have "if nullish (Str ''dark'') then state (settingsStore\<lparr>state := Str ''dark''\<rparr>)
            = initialState_in settingsConfig
        else same_value emptyWorld (Str ''dark'')
               (saveToStorage ''settings'' (Str ''dark'') emptyWorld)
               (state (settingsStore\<lparr>state := Str ''dark''\<rparr>))"
    using persistence_reload [THEN conjunct2, rule_format, of settingsConfig "''SettingsStore''"
        rootInjectionContext emptyWorld settingsStore emptyWorld settingsConfig
        "''SettingsStore''" rootInjectionContext "Str ''dark''" None
        "settingsStore\<lparr>state := Str ''dark''\<rparr>"
        "saveToStorage ''settings'' (Str ''dark'') emptyWorld"]
      h1 h3 settingsStore_constructed settingsStore_reload_dark
    by blast
  then have b: "same_value emptyWorld (Str ''dark'')
         (saveToStorage ''settings'' (Str ''dark'') emptyWorld)
         (state (settingsStore\<lparr>state := Str ''dark''\<rparr>))"
    by simp
  show ?thesis
    using h1 h2 h3 a b settingsStore_constructed settingsStore_reload_dark by simp
qed

text \<open>
  Right after \<open>set('dark')\<close> the backend is still empty, and the store constructed next
  starts at \<open>initialState\<close>. After \<open>set(null)\<close> and the run of the effect the backend holds
  \<open>null\<close>, and the store constructed next starts at \<open>initialState\<close> too.
\<close>

theorem persistence_reload_counterexample:
  "Store_constructor ''SettingsStore'' rootInjectionContext settingsConfig emptyWorld
     = (Inr settingsStore, emptyWorld)
   \<and> state settingsStore = Str ''light''
   \<and> state (fst (set_store (Str ''dark'') None (settingsStore, emptyWorld))) = Str ''dark''
   \<and> fst (Store_constructor ''SettingsStore'' rootInjectionContext settingsConfig
            (snd (set_store (Str ''dark'') None (settingsStore, emptyWorld))))
       = Inr settingsStore
   \<and> state (fst (set_store Null None (settingsStore, emptyWorld))) = Null
   \<and> fst (Store_constructor ''SettingsStore'' rootInjectionContext settingsConfig
            (snd (flush (set_store Null None (settingsStore, emptyWorld)))))
       = Inr settingsStore"
  by (simp add: settingsStore_constructed)
     (simp add: store_defs settingsConfig_def settingsStore_def emptyWorld_def
      rootInjectionContext_def loadFromStorage_def nullish_coalesce_def saveToStorage_def)

subsection \<open>Clearing the persisted entry\<close>

text \<open>
  Claim C9. \<open>clearPersistence()\<close> removes the entry of the backend under the store's name
  and no other entry; the store, with its state, and the rest of the process are
  unchanged.
\<close>

theorem clearPersistence_frame:
  "fst (clearPersistence (s, w)) = s
   \<and> localStorage (snd (clearPersistence (s, w))) (name (config s)) = None
   \<and> (\<forall>key. key \<noteq> name (config s) \<longrightarrow>
         localStorage (snd (clearPersistence (s, w))) key = localStorage w key)
   \<and> mediator (snd (clearPersistence (s, w))) = mediator w
   \<and> console (snd (clearPersistence (s, w))) = console w
   \<and> handled (snd (clearPersistence (s, w))) = handled w"
  by (simp add: clearLocalStorage_def)

theorem clearPersistence_frame_witness:
  "localStorage sharedWorld ''settings'' = Some (Str ''light'')
   \<and> ''other'' \<noteq> name (config settingsStore)
   \<and> state (fst (clearPersistence (settingsStore, sharedWorld))) = Str ''light''
   \<and> localStorage (snd (clearPersistence (settingsStore, sharedWorld))) ''settings'' = None
   \<and> localStorage (snd (clearPersistence (settingsStore, sharedWorld))) ''other'' = Some (Num 7)"
proof -
  have n: "name (config settingsStore) = ''settings''" "state settingsStore = Str ''light''"
    by (simp_all add: settingsStore_def)
  have o: "localStorage sharedWorld ''other'' = Some (Num 7)"
    "localStorage sharedWorld ''settings'' = Some (Str ''light'')"
    by (simp_all add: sharedWorld_def settingsWorld_def)
  note t = clearPersistence_frame [of settingsStore sharedWorld]
  have "localStorage (snd (clearPersistence (settingsStore, sharedWorld))) ''other''
          = localStorage sharedWorld ''other''"
    using t [THEN conjunct2, THEN conjunct2, THEN conjunct1, rule_format, of "''other''"] n
    by simp
  then show ?thesis
    using t n o by simp
qed

subsection \<open>Events without \<open>enableEvents\<close>\<close>

lemma map_of_append_registration:
  "map_of (append_registration ev r regs) ev
     = Some ((case map_of regs ev of None \<Rightarrow> [] | Some rs \<Rightarrow> rs) @ [r])"
  by (induction regs) auto

lemma registrations_of_register:
  "registrations_of (Mediator_register event src h m) (event_name event)
     = registrations_of m (event_name event) @ [\<lparr>source = src, handler = h\<rparr>]"
  by (simp add: registrations_of_def Mediator_register_def map_of_append_registration)

lemma foldl_log_frame [simp]:
  "mediator (foldl (\<lambda>wa src. logWithGeneralStore s src c a wa) w srcs) = mediator w"
  "mediatorObjects (foldl (\<lambda>wa src. logWithGeneralStore s src c a wa) w srcs) = mediatorObjects w"
  "handled (foldl (\<lambda>wa src. logWithGeneralStore s src c a wa) w srcs) = handled w"
  by (induction srcs arbitrary: w) (simp_all add: logWithGeneralStore_def)

lemma Mediator_replay_frame [simp]:
  "mediator (Mediator_replay src m w) = mediator w"
  "mediatorObjects (Mediator_replay src m w) = mediatorObjects w"
  by (simp_all add: Mediator_replay_def)

lemma mediator_after_registerHandler:
  "mediator (snd (registerHandler event h withReplay (s, w)))
     = Some (case mediator w of None \<Rightarrow> nextMediator w | Some r \<Rightarrow> r)"
  by (simp add: StoreBase_mediator_def Mediator_alloc_def Let_def split: option.splits)

lemma mediatorObjects_after_registerHandler:
  "mediatorObjects (snd (registerHandler event h withReplay (s, w)))
       (case mediator w of None \<Rightarrow> nextMediator w | Some r \<Rightarrow> r)
     = Mediator_register event (name (config s)) h
         (case mediator w of None \<Rightarrow> Mediator_new | Some r \<Rightarrow> mediatorObjects w r)"
  by (simp add: StoreBase_mediator_def Mediator_alloc_def Let_def split: option.splits)

lemma handled_after_publish:
  "handled (snd (publish event payload (s, w)))
     = handled w @ map (\<lambda>r. (handler r, event_name event, payload))
         (case mediator w of
            None \<Rightarrow> []
          | Some r \<Rightarrow> registrations_of (mediatorObjects w r) (event_name event))"
  by (simp add: StoreBase_mediator_def Mediator_alloc_def Mediator_publish_def Let_def
      registrations_of_def Mediator_new_def split: option.splits)

lemma mediator_after_publish:
  "mediator (snd (publish event payload (s, w)))
     = Some (case mediator w of None \<Rightarrow> nextMediator w | Some r \<Rightarrow> r)"
  by (simp add: StoreBase_mediator_def Mediator_alloc_def Mediator_publish_def Let_def
      split: option.splits)

text \<open>
  Claim C10. \<open>registerHandler\<close> and \<open>publish\<close> return for every store and leave the store
  as it was; they do not read \<open>enableEvents\<close>. The static accessor creates the mediator
  when the static field is empty and keeps it there, so that afterwards the field holds
  the new mediator, or the one it held before. \<open>publish\<close> runs the handler of every
  registration of the event in this mediator, in registration order, whichever store
  registered it: a handler that a store has registered runs when another store
  publishes the event. So it is for the counter, which is constructed with
  \<open>enableEvents\<close> off and leaves the static field empty.
\<close>

theorem events_without_enableEvents:
  "fst (registerHandler event h withReplay (s, w)) = s
   \<and> mediator (snd (registerHandler event h withReplay (s, w)))
       = Some (case mediator w of None \<Rightarrow> nextMediator w | Some r \<Rightarrow> r)
   \<and> fst (publish event payload (publisher, w)) = publisher
   \<and> mediator (snd (publish event payload (publisher, w)))
       = Some (case mediator w of None \<Rightarrow> nextMediator w | Some r \<Rightarrow> r)
   \<and> handled (snd (publish event payload (publisher, w)))
       = handled w @ map (\<lambda>r. (handler r, event_name event, payload))
           (case mediator w of
              None \<Rightarrow> []
            | Some r \<Rightarrow> registrations_of (mediatorObjects w r) (event_name event))
   \<and> (h, event_name event, payload)
       \<in> set (handled (snd (publish event payload
                 (publisher, snd (registerHandler event h withReplay (s, w))))))
   \<and> snd (registerHandler event h withReplay (s\<lparr>config := (config s)\<lparr>enableEvents := b\<rparr>\<rparr>, w))
       = snd (registerHandler event h withReplay (s, w))
   \<and> snd (publish event payload (publisher\<lparr>config := (config publisher)\<lparr>enableEvents := b\<rparr>\<rparr>, w))
       = snd (publish event payload (publisher, w))
   \<and> mediator (snd (Store_constructor ''CounterStore'' noInjectionContext counterConfig emptyWorld))
       = None
   \<and> handled (snd (publish (StoreEvent ''saved'') (Num 1)
         (plainStore, snd (registerHandler (StoreEvent ''saved'') 7 False (counterStore, emptyWorld)))))
       = [(7, ''saved'', Num 1)]"
proof -
  have r1: "fst (registerHandler event h withReplay (s, w)) = s"
    by (simp add: Let_def split: prod.splits)
  have p1: "fst (publish event payload (publisher, w)) = publisher"
    by (simp add: Let_def split: prod.splits)
  have run: "(h, event_name event, payload)
       \<in> set (handled (snd (publish event payload
                 (publisher, snd (registerHandler event h withReplay (s, w))))))"
    unfolding handled_after_publish mediator_after_registerHandler
    by (simp add: mediatorObjects_after_registerHandler registrations_of_register
        del: registerHandler.simps)
  have r2: "snd (registerHandler event h withReplay (s\<lparr>config := (config s)\<lparr>enableEvents := b\<rparr>\<rparr>, w))
       = snd (registerHandler event h withReplay (s, w))"
    by (simp add: Let_def log_store_def logWithGeneralStore_def split: prod.splits)
  have p2: "snd (publish event payload (publisher\<lparr>config := (config publisher)\<lparr>enableEvents := b\<rparr>\<rparr>, w))
       = snd (publish event payload (publisher, w))"
    by (simp add: Let_def log_store_def logWithGeneralStore_def split: prod.splits)
  have c1: "mediator (snd (Store_constructor ''CounterStore'' noInjectionContext counterConfig emptyWorld))
       = None"
    by (simp add: counterStore_constructed) (simp add: emptyWorld_def)
  have c2: "handled (snd (publish (StoreEvent ''saved'') (Num 1)
         (plainStore, snd (registerHandler (StoreEvent ''saved'') 7 False (counterStore, emptyWorld)))))
       = [(7, ''saved'', Num 1)]"
    by (simp add: StoreBase_mediator_def Mediator_alloc_def Mediator_publish_def
        Mediator_register_def registrations_of_def Mediator_new_def Let_def log_store_def
        logWithGeneralStore_def counterStore_def plainStore_def emptyWorld_def)
  show ?thesis
    using r1 p1 run r2 p2 c1 c2
      mediator_after_publish [of event payload publisher w]
      handled_after_publish [of event payload publisher w]
      mediator_after_registerHandler [of event h withReplay s w]
    by (simp del: registerHandler.simps publish.simps)
qed

end
